theory Spec2Isabelle
  imports Main
begin

section \<open>Data model of the sync screen\<close>

text \<open>
  The screen \<^verbatim>\<open>app/(tabs)/index.tsx\<close> is one React component. Its handlers are
  asynchronous functions that call the platform (contacts reader, document picker,
  file-info lookup, key-value store, \<^verbatim>\<open>fetch\<close>) and set component state.
  The embedding passes the state explicitly and records every observable action in a
  trace, so that "no contact read" and "no network request" are statements about the
  trace.
\<close>

text \<open>The status string of \<^verbatim>\<open>expo-contacts\<close>: 'granted', 'denied', 'undetermined'.\<close>

datatype permission = Granted | Denied | Undetermined

text \<open>A thrown value: an \<^verbatim>\<open>Error\<close> object, read through \<^verbatim>\<open>error.message\<close>.\<close>

datatype thrown = Error (message: string)

text \<open>The four fields that \<^verbatim>\<open>getContactsAsync\<close> is asked for.\<close>

record contact =
  contact_id :: string
  contact_name :: string
  phoneNumbers :: "string list"
  emails :: "string list"

text \<open>
  The object \<^verbatim>\<open>getInfoAsync\<close> resolves to. \<^verbatim>\<open>size\<close> and
  \<^verbatim>\<open>modificationTime\<close> may be undefined (\<open>None\<close>); numbers are integers here.
\<close>

record fileInfo =
  info_exists :: bool
  info_size :: "int option"
  info_modificationTime :: "int option"

text \<open>The object literal built by \<^verbatim>\<open>getFilesFromDirectory\<close>.\<close>

record fileEntry =
  uri :: string
  name :: string
  size_bytes :: int
  modificationTime :: int

text \<open>
  A \<^verbatim>\<open>fetch\<close> response: the status code and what \<^verbatim>\<open>response.json()\<close>
  gives (a parse error, or the parsed body, kept as text). \<^verbatim>\<open>response.ok\<close> is
  the Fetch standard's test for a status in the range 200 to 299.
\<close>

record response =
  status :: nat
  json :: "thrown + string"

definition ok :: "response \<Rightarrow> bool" where
  "ok resp = (200 \<le> status resp \<and> status resp \<le> 299)"

text \<open>
  The result of \<^verbatim>\<open>DocumentPicker.getDocumentAsync\<close>: the \<^verbatim>\<open>canceled\<close>
  flag and \<^verbatim>\<open>assets\<close> (null, or the list of the assets' uris).
\<close>

record pickerResult =
  canceled :: bool
  assets :: "string list option"

text \<open>The JSON envelope of a POST: the domain's data and a timestamp.\<close>

datatype body =
  ContactsBody "contact list" string
| FilesBody "fileEntry list" string

text \<open>Observable actions, in the order they happen.\<close>

datatype event =
  Alert string string
| ConsoleError string thrown
| ConsoleLog string "string option"
| ContactsRead
| FileInfoRead string
| HttpPost string body
| PickerOpened
| SetTimeout nat

text \<open>The component state, one field per \<^verbatim>\<open>useState\<close>.\<close>

record app =
  contactsPermission :: "permission option"
  selectedFolderUri :: "string option"
  contacts :: "contact list"
  files :: "fileEntry list"
  isLoading :: bool
  lastSyncTime :: "string option"
  syncStatus :: string

text \<open>
  The world a handler runs in: the component state as set so far, the key-value store
  (\<^verbatim>\<open>AsyncStorage\<close>, a map from key to string value), the trace and the number of
  clock readings taken.
\<close>

record world =
  ui :: app
  storage :: "string \<rightharpoonup> string"
  trace :: "event list"
  ticks :: nat

text \<open>
  What the platform answers: each awaited call resolves or rejects with an error;
  \<open>storageSetItem env k v\<close> is \<open>None\<close> when the store accepts the write of v
  under k and the error when it rejects it. The clock is read by \<^verbatim>\<open>new Date()\<close> and
  \<^verbatim>\<open>Date.now()\<close>: \<open>dateNow env n\<close> is the n-th reading in milliseconds and
  \<open>toISOString env\<close> renders a reading as ISO-8601 text.
\<close>

record env =
  getContactsAsync :: "thrown + contact list"
  getInfoAsync :: "string \<Rightarrow> thrown + fileInfo"
  fetch :: "string \<Rightarrow> body \<Rightarrow> thrown + response"
  getDocumentAsync :: "thrown + pickerResult"
  storageSetItem :: "string \<Rightarrow> string \<Rightarrow> thrown option"
  dateNow :: "nat \<Rightarrow> int"
  toISOString :: "int \<Rightarrow> string"

section \<open>Control flow: return, throw, try, catch, finally\<close>

text \<open>
  A call either returns a value or throws; either way it leaves a world behind, and a
  \<^verbatim>\<open>catch\<close> block continues from the world left by the throw.
\<close>

datatype 'a outcome =
  is_Return: Return (result: 'a) (world_of: world)
| is_Throw: Throw (thrown_of: thrown) (world_of: world)

fun bind :: "'a outcome \<Rightarrow> ('a \<Rightarrow> world \<Rightarrow> 'b outcome) \<Rightarrow> 'b outcome" where
  "bind (Return a w) f = f a w"
| "bind (Throw e w) f = Throw e w"

fun try_catch :: "'a outcome \<Rightarrow> (thrown \<Rightarrow> world \<Rightarrow> 'a outcome) \<Rightarrow> 'a outcome" where
  "try_catch (Return a w) h = Return a w"
| "try_catch (Throw e w) h = h e w"

fun try_finally :: "'a outcome \<Rightarrow> (world \<Rightarrow> world) \<Rightarrow> 'a outcome" where
  "try_finally (Return a w) f = Return a (f w)"
| "try_finally (Throw e w) f = Throw e (f w)"

section \<open>Primitive actions\<close>

definition emit :: "event \<Rightarrow> world \<Rightarrow> world" where
  "emit ev w = w\<lparr>trace := trace w @ [ev]\<rparr>"

definition alert :: "string \<Rightarrow> string \<Rightarrow> world \<Rightarrow> world" where
  "alert title msg w = emit (Alert title msg) w"

definition console_error :: "string \<Rightarrow> thrown \<Rightarrow> world \<Rightarrow> world" where
  "console_error label e w = emit (ConsoleError label e) w"

definition console_log :: "string \<Rightarrow> string option \<Rightarrow> world \<Rightarrow> world" where
  "console_log label v w = emit (ConsoleLog label v) w"

text \<open>\<^verbatim>\<open>setTimeout(() => setSyncStatus(''), ms)\<close>: the callback is scheduled, not run.\<close>

definition setTimeout :: "nat \<Rightarrow> world \<Rightarrow> world" where
  "setTimeout ms w = emit (SetTimeout ms) w"

definition setSelectedFolderUri :: "string \<Rightarrow> world \<Rightarrow> world" where
  "setSelectedFolderUri u w = w\<lparr>ui := (ui w)\<lparr>selectedFolderUri := Some u\<rparr>\<rparr>"

definition setContacts :: "contact list \<Rightarrow> world \<Rightarrow> world" where
  "setContacts cs w = w\<lparr>ui := (ui w)\<lparr>contacts := cs\<rparr>\<rparr>"

definition setFiles :: "fileEntry list \<Rightarrow> world \<Rightarrow> world" where
  "setFiles fs w = w\<lparr>ui := (ui w)\<lparr>files := fs\<rparr>\<rparr>"

definition setIsLoading :: "bool \<Rightarrow> world \<Rightarrow> world" where
  "setIsLoading b w = w\<lparr>ui := (ui w)\<lparr>isLoading := b\<rparr>\<rparr>"

definition setLastSyncTime :: "string \<Rightarrow> world \<Rightarrow> world" where
  "setLastSyncTime t w = w\<lparr>ui := (ui w)\<lparr>lastSyncTime := Some t\<rparr>\<rparr>"

definition setSyncStatus :: "string \<Rightarrow> world \<Rightarrow> world" where
  "setSyncStatus s w = w\<lparr>ui := (ui w)\<lparr>syncStatus := s\<rparr>\<rparr>"

text \<open>\<^verbatim>\<open>Date.now()\<close> and \<^verbatim>\<open>new Date().toISOString()\<close>: one clock reading each.\<close>

definition date_now :: "env \<Rightarrow> world \<Rightarrow> int \<times> world" where
  "date_now env w = (dateNow env (ticks w), w\<lparr>ticks := Suc (ticks w)\<rparr>)"

definition new_date_iso :: "env \<Rightarrow> world \<Rightarrow> string \<times> world" where
  "new_date_iso env w = (toISOString env (dateNow env (ticks w)), w\<lparr>ticks := Suc (ticks w)\<rparr>)"

text \<open>
  \<^verbatim>\<open>await AsyncStorage.setItem(key, value)\<close>: the store is a map from key to
  string value. The platform accepts the write (\<open>None\<close>), which stores the value, or
  rejects it with an error, which leaves the store as it was and throws.
\<close>

definition setItem :: "env \<Rightarrow> string \<Rightarrow> string \<Rightarrow> world \<Rightarrow> unit outcome" where
  "setItem env k v w =
     (case storageSetItem env k v of
        None \<Rightarrow> Return () (w\<lparr>storage := (storage w)(k \<mapsto> v)\<rparr>)
      | Some e \<Rightarrow> Throw e w)"

definition await_getContactsAsync :: "env \<Rightarrow> world \<Rightarrow> (contact list) outcome" where
  "await_getContactsAsync env w =
     (case getContactsAsync env of
        Inl e \<Rightarrow> Throw e (emit ContactsRead w)
      | Inr d \<Rightarrow> Return d (emit ContactsRead w))"

definition await_getInfoAsync :: "env \<Rightarrow> string \<Rightarrow> world \<Rightarrow> fileInfo outcome" where
  "await_getInfoAsync env u w =
     (case getInfoAsync env u of
        Inl e \<Rightarrow> Throw e (emit (FileInfoRead u) w)
      | Inr i \<Rightarrow> Return i (emit (FileInfoRead u) w))"

definition await_fetch :: "env \<Rightarrow> string \<Rightarrow> body \<Rightarrow> world \<Rightarrow> response outcome" where
  "await_fetch env url b w =
     (case fetch env url b of
        Inl e \<Rightarrow> Throw e (emit (HttpPost url b) w)
      | Inr r \<Rightarrow> Return r (emit (HttpPost url b) w))"

definition await_json :: "response \<Rightarrow> world \<Rightarrow> string outcome" where
  "await_json resp w = (case json resp of Inl e \<Rightarrow> Throw e w | Inr v \<Rightarrow> Return v w)"

definition await_getDocumentAsync :: "env \<Rightarrow> world \<Rightarrow> pickerResult outcome" where
  "await_getDocumentAsync env w =
     (case getDocumentAsync env of
        Inl e \<Rightarrow> Throw e (emit PickerOpened w)
      | Inr p \<Rightarrow> Return p (emit PickerOpened w))"

section \<open>JavaScript helpers\<close>

text \<open>A string is truthy when it is neither null nor empty.\<close>

definition truthy :: "string option \<Rightarrow> bool" where
  "truthy x = (case x of None \<Rightarrow> False | Some s \<Rightarrow> s \<noteq> [])"

text \<open>\<^verbatim>\<open>x || d\<close> on a number that may be undefined: \<open>d\<close> when x is undefined or 0.\<close>

definition num_or :: "int option \<Rightarrow> int \<Rightarrow> int" where
  "num_or x d = (case x of None \<Rightarrow> d | Some v \<Rightarrow> if v = 0 then d else v)"

text \<open>
  \<^verbatim>\<open>x || Date.now()\<close>: the clock is read only when x is undefined or 0.
\<close>

definition num_or_now :: "env \<Rightarrow> int option \<Rightarrow> world \<Rightarrow> int \<times> world" where
  "num_or_now env x w =
     (case x of
        None \<Rightarrow> date_now env w
      | Some v \<Rightarrow> if v = 0 then date_now env w else (v, w))"

text \<open>
  \<^verbatim>\<open>s.split(sep)\<close> for a one-character separator: the pieces between the
  separators, never an empty array. \<^verbatim>\<open>.pop()\<close> takes the last piece.
\<close>

fun js_split :: "char \<Rightarrow> string \<Rightarrow> string list" where
  "js_split sep [] = [Nil]"
| "js_split sep (c # cs) =
     (if c = sep then [] # js_split sep cs
      else (c # hd (js_split sep cs)) # tl (js_split sep cs))"

definition pop :: "string list \<Rightarrow> string" where
  "pop xs = last xs"

text \<open>The decimal text of a number, as a template literal renders it.\<close>

definition digit :: "nat \<Rightarrow> char" where
  "digit n = ''0123456789'' ! n"

fun string_of_nat :: "nat \<Rightarrow> string" where
  "string_of_nat n =
     (if n < 10 then [digit n]
      else string_of_nat (n div 10) @ [digit (n mod 10)])"

declare string_of_nat.simps [simp del]

section \<open>The handlers\<close>

definition BACKEND_URL :: string where
  "BACKEND_URL = ''https://your-backend-url.com/api''"

definition CONTACTS_LAST_SYNC :: string where
  "CONTACTS_LAST_SYNC = ''contacts_last_sync''"

definition FOLDER_URI :: string where
  "FOLDER_URI = ''folder_uri''"

definition FILES_LAST_SYNC :: string where
  "FILES_LAST_SYNC = ''files_last_sync''"

text \<open>
  Each handler is a closure of one render: it reads the state variables of that render
  (the snapshot \<open>r\<close>) and its \<^verbatim>\<open>set...\<close> calls write to the world. For a handler
  called from the screen, \<open>r\<close> is \<open>ui w\<close>.
\<close>

definition sendContactsToBackend :: "env \<Rightarrow> contact list \<Rightarrow> world \<Rightarrow> unit outcome" where
  "sendContactsToBackend env contactsData w =
     try_catch
       (case new_date_iso env w of (ts, w1) \<Rightarrow>
          bind (await_fetch env (BACKEND_URL @ ''/sync-contacts'') (ContactsBody contactsData ts) w1)
            (\<lambda>resp w2.
               if \<not> ok resp
               then Throw (Error (''HTTP error! status: '' @ string_of_nat (status resp))) w2
               else bind (await_json resp w2)
                      (\<lambda>res w3. Return () (console_log ''Contacts synced to backend:'' (Some res) w3))))
       (\<lambda>error w1.
          Return () (console_log ''Continuing with local storage only'' None
                      (console_error ''Backend sync error for contacts:'' error w1)))"

definition sendFilesToBackend :: "env \<Rightarrow> fileEntry list \<Rightarrow> world \<Rightarrow> unit outcome" where
  "sendFilesToBackend env filesData w =
     try_catch
       (case new_date_iso env w of (ts, w1) \<Rightarrow>
          bind (await_fetch env (BACKEND_URL @ ''/sync-files'') (FilesBody filesData ts) w1)
            (\<lambda>resp w2.
               if \<not> ok resp
               then Throw (Error (''HTTP error! status: '' @ string_of_nat (status resp))) w2
               else bind (await_json resp w2)
                      (\<lambda>res w3. Return () (console_log ''Files synced to backend:'' (Some res) w3))))
       (\<lambda>error w1.
          Return () (console_log ''Continuing with local storage only'' None
                      (console_error ''Backend sync error for files:'' error w1)))"

definition getFilesFromDirectory :: "env \<Rightarrow> string \<Rightarrow> world \<Rightarrow> (fileEntry list) outcome" where
  "getFilesFromDirectory env directoryUri w =
     try_catch
       (bind (await_getInfoAsync env directoryUri w)
          (\<lambda>fileInfo w1.
             if info_exists fileInfo
             then (case num_or_now env (info_modificationTime fileInfo) w1 of
                     (mtime, w2) \<Rightarrow>
                       Return [\<lparr>uri = directoryUri,
                                name = pop (js_split (CHR ''/'') directoryUri),
                                size_bytes = num_or (info_size fileInfo) 0,
                                modificationTime = mtime\<rparr>] w2)
             else Return [] w1))
       (\<lambda>error w1. Return [] (console_error ''Error getting files:'' error w1))"

definition syncContacts :: "env \<Rightarrow> app \<Rightarrow> world \<Rightarrow> unit outcome" where
  "syncContacts env r w =
     (if contactsPermission r \<noteq> Some Granted
      then Return () (alert ''Permission Required'' ''Please grant contacts permission first.'' w)
      else
        try_finally
          (try_catch
             (bind (await_getContactsAsync env
                      (setSyncStatus ''Syncing contacts...'' (setIsLoading True w)))
                (\<lambda>data w1.
                   bind (sendContactsToBackend env data (setContacts data w1))
                     (\<lambda>_ w2.
                        case new_date_iso env w2 of (now, w3) \<Rightarrow>
                          bind (setItem env CONTACTS_LAST_SYNC now w3)
                            (\<lambda>_ w4.
                               Return () (setTimeout 3000
                                           (setSyncStatus ''Contacts synced successfully!''
                                             (setLastSyncTime now w4)))))))
             (\<lambda>error w1.
                Return () (setTimeout 3000
                            (setSyncStatus ''Contacts sync failed''
                              (alert ''Sync Error'' (''Failed to sync contacts: '' @ message error)
                                (console_error ''Error syncing contacts:'' error w1))))))
          (setIsLoading False))"

definition syncFiles :: "env \<Rightarrow> app \<Rightarrow> world \<Rightarrow> unit outcome" where
  "syncFiles env r w =
     (if \<not> truthy (selectedFolderUri r)
      then Return () (alert ''Folder Required'' ''Please select a folder first.'' w)
      else
        try_finally
          (try_catch
             (bind (getFilesFromDirectory env (the (selectedFolderUri r))
                      (setSyncStatus ''Syncing files...'' (setIsLoading True w)))
                (\<lambda>fileList w1.
                   bind (sendFilesToBackend env fileList (setFiles fileList w1))
                     (\<lambda>_ w2.
                        case new_date_iso env w2 of (now, w3) \<Rightarrow>
                          bind (setItem env FILES_LAST_SYNC now w3)
                            (\<lambda>_ w4.
                               Return () (setTimeout 3000
                                           (setSyncStatus ''Files synced successfully!'' w4))))))
             (\<lambda>error w1.
                Return () (setTimeout 3000
                            (setSyncStatus ''Files sync failed''
                              (alert ''Sync Error'' (''Failed to sync files: '' @ message error)
                                (console_error ''Error syncing files:'' error w1))))))
          (setIsLoading False))"

text \<open>
  \<^verbatim>\<open>performAutoSync\<close> awaits the two sync handlers of its render inside one
  \<^verbatim>\<open>try\<close>, with one \<^verbatim>\<open>catch\<close> for both. \<open>performAutoSync_body\<close> is that
  function body with the two handlers as parameters, so that what the
  \<^verbatim>\<open>catch\<close> does with a handler that throws can be stated;
  \<open>performAutoSync\<close> is the body applied to the handlers of the render.
\<close>

definition performAutoSync_body ::
    "(world \<Rightarrow> unit outcome) \<Rightarrow> (world \<Rightarrow> unit outcome) \<Rightarrow> app \<Rightarrow> world \<Rightarrow> unit outcome" where
  "performAutoSync_body syncContacts_h syncFiles_h r w =
     try_catch
       (bind (if contactsPermission r = Some Granted then syncContacts_h w else Return () w)
          (\<lambda>_ w1. if truthy (selectedFolderUri r) then syncFiles_h w1 else Return () w1))
       (\<lambda>error w1. Return () (console_error ''Auto sync error:'' error w1))"

definition performAutoSync :: "env \<Rightarrow> app \<Rightarrow> world \<Rightarrow> unit outcome" where
  "performAutoSync env r w = performAutoSync_body (syncContacts env r) (syncFiles env r) r w"

definition selectFolder :: "env \<Rightarrow> app \<Rightarrow> world \<Rightarrow> unit outcome" where
  "selectFolder env r w =
     try_catch
       (bind (await_getDocumentAsync env w)
          (\<lambda>res w1.
             if \<not> canceled res \<and> assets res \<noteq> None \<and> the (assets res) \<noteq> []
             then (let folderUri = hd (the (assets res)) in
                   bind (setItem env FOLDER_URI folderUri (setSelectedFolderUri folderUri w1))
                     (\<lambda>_ w2. syncFiles env r (alert ''Success'' ''Folder access granted!'' w2)))
             else Return () w1))
       (\<lambda>error w1.
          Return () (alert ''Error'' ''Failed to select folder''
                      (console_error ''Error selecting folder:'' error w1)))"

section \<open>Reading a trace\<close>

fun is_alert :: "event \<Rightarrow> bool" where
  "is_alert (Alert t m) = True"
| "is_alert _ = False"

fun is_local_read :: "event \<Rightarrow> bool" where
  "is_local_read ContactsRead = True"
| "is_local_read (FileInfoRead u) = True"
| "is_local_read _ = False"

fun is_request :: "event \<Rightarrow> bool" where
  "is_request (HttpPost url b) = True"
| "is_request _ = False"

text \<open>
  The spec's "remote POST rejects (any non-2xx) or throws": \<^verbatim>\<open>fetch\<close> throws,
  or answers with a status outside 200 to 299.
\<close>

definition post_failed :: "thrown + response \<Rightarrow> bool" where
  "post_failed x =
     (case x of
        Inl e \<Rightarrow> True
      | Inr resp \<Rightarrow> \<not> (200 \<le> status resp \<and> status resp \<le> 299))"

text \<open>
  The spec's "last path segment" of a handle: the longest suffix without the separator.
\<close>

definition last_segment :: "char \<Rightarrow> string \<Rightarrow> string" where
  "last_segment sep s = rev (takeWhile (\<lambda>c. c \<noteq> sep) (rev s))"

section \<open>Sample platform answers\<close>

text \<open>
  A platform on which everything succeeds; the samples below change one answer each.
  The sample clock starts at 1700000000000 ms and advances one millisecond per reading;
  \<open>ex_iso\<close> is the ISO-8601 text of the readings within that second.
\<close>

definition ex_iso :: "int \<Rightarrow> string" where
  "ex_iso t =
     (let ms = nat (t mod 1000)
      in ''2023-11-14T22:13:20.''
         @ [digit (ms div 100), digit (ms div 10 mod 10), digit (ms mod 10)]
         @ ''Z'')"

definition ex_contact :: contact where
  "ex_contact = \<lparr>contact_id = ''1'', contact_name = ''Ada'',
                  phoneNumbers = [''+15550100''], emails = [''ada@example.com'']\<rparr>"

definition ex_env :: env where
  "ex_env =
     \<lparr>getContactsAsync = Inr [ex_contact],
      getInfoAsync = (\<lambda>u. Inr \<lparr>info_exists = True, info_size = Some 4096,
                                info_modificationTime = Some 1699999000\<rparr>),
      fetch = (\<lambda>url b. Inr \<lparr>status = 200, json = Inr ''{}''\<rparr>),
      getDocumentAsync = Inr \<lparr>canceled = True, assets = None\<rparr>,
      storageSetItem = (\<lambda>k v. None),
      dateNow = (\<lambda>n. 1700000000000 + int n),
      toISOString = ex_iso\<rparr>"

definition ex_env_http500 :: env where
  "ex_env_http500 = ex_env\<lparr>fetch := (\<lambda>url b. Inr \<lparr>status = 500, json = Inr ''{}''\<rparr>)\<rparr>"

definition ex_env_store_rejects :: env where
  "ex_env_store_rejects =
     ex_env_http500\<lparr>storageSetItem := (\<lambda>k v. Some (Error ''Storage is full''))\<rparr>"

definition ex_env_offline :: env where
  "ex_env_offline = ex_env\<lparr>fetch := (\<lambda>url b. Inl (Error ''Network request failed''))\<rparr>"

definition ex_env_contacts_throw :: env where
  "ex_env_contacts_throw = ex_env\<lparr>getContactsAsync := Inl (Error ''Contacts unavailable'')\<rparr>"

definition ex_env_info_throws :: env where
  "ex_env_info_throws = ex_env\<lparr>getInfoAsync := (\<lambda>u. Inl (Error ''Location is not readable''))\<rparr>"

definition ex_env_missing :: env where
  "ex_env_missing =
     ex_env\<lparr>getInfoAsync := (\<lambda>u. Inr \<lparr>info_exists = False, info_size = None,
                                           info_modificationTime = None\<rparr>)\<rparr>"

definition ex_env_no_assets :: env where
  "ex_env_no_assets = ex_env\<lparr>getDocumentAsync := Inr \<lparr>canceled = False, assets = Some []\<rparr>\<rparr>"

text \<open>A render with the permission granted and the folder of the spec's scenario.\<close>

definition ex_app :: app where
  "ex_app =
     \<lparr>contactsPermission = Some Granted, selectedFolderUri = Some ''file:///mock/folder'',
      contacts = [], files = [], isLoading = False, lastSyncTime = None, syncStatus = []\<rparr>"

definition ex_app_denied :: app where
  "ex_app_denied = ex_app\<lparr>contactsPermission := Some Denied\<rparr>"

definition ex_app_no_folder :: app where
  "ex_app_no_folder = ex_app\<lparr>selectedFolderUri := None\<rparr>"

definition ex_app_idle :: app where
  "ex_app_idle = ex_app\<lparr>contactsPermission := Some Denied, selectedFolderUri := None\<rparr>"

definition ex_world :: "app \<Rightarrow> world" where
  "ex_world a = \<lparr>ui = a, storage = Map.empty, trace = [], ticks = 0\<rparr>"

section \<open>Properties\<close>

lemmas prim_defs = emit_def alert_def console_error_def console_log_def setTimeout_def
  setSelectedFolderUri_def setContacts_def setFiles_def setIsLoading_def setLastSyncTime_def
  setSyncStatus_def date_now_def new_date_iso_def setItem_def await_getContactsAsync_def
  await_getInfoAsync_def await_fetch_def await_json_def await_getDocumentAsync_def

lemmas ex_defs = ex_iso_def ex_contact_def ex_env_def ex_env_http500_def ex_env_offline_def
  ex_env_store_rejects_def
  ex_env_contacts_throw_def ex_env_info_throws_def ex_env_missing_def ex_env_no_assets_def
  ex_app_def ex_app_denied_def ex_app_no_folder_def ex_app_idle_def ex_world_def digit_def

subsection \<open>The split of a handle\<close>

lemma js_split_not_Nil: "js_split sep s \<noteq> []"
  by (induction s) auto

lemma js_split_no_sep: "sep \<notin> set s \<Longrightarrow> js_split sep s = [s]"
  by (induction s) auto

lemma js_split_append: "js_split sep (a @ sep # b) = js_split sep a @ js_split sep b"
  by (induction a) (auto simp: js_split_not_Nil)

lemma pop_js_split: "pop (js_split sep s) = last_segment sep s"
proof (cases "sep \<in> set s")
  case False
  then have "\<forall>c\<in>set (rev s). c \<noteq> sep" by auto
  then have "takeWhile (\<lambda>c. c \<noteq> sep) (rev s) = rev s"
    by (rule takeWhile_eq_all_conv[THEN iffD2])
  then have "last_segment sep s = s"
    unfolding last_segment_def by (simp only: rev_rev_ident)
  with False show ?thesis
    by (simp add: pop_def js_split_no_sep)
next
  case True
  then obtain a b where s: "s = a @ sep # b" and b: "sep \<notin> set b"
    by (auto dest: split_list_last)
  have "takeWhile (\<lambda>c. c \<noteq> sep) (rev b @ sep # rev a) = rev b"
    using b by (auto simp: takeWhile_tail)
  then show ?thesis
    using b by (simp add: s pop_def last_segment_def js_split_append js_split_no_sep)
qed

text \<open>
  \<open>last_segment\<close> is the last piece: it holds no separator, and what stands before it
  in the handle is nothing or ends with a separator.
\<close>

lemma last_segment_char:
  "sep \<notin> set (last_segment sep s) \<and>
   (\<exists>pre. s = pre @ last_segment sep s \<and> (pre = [] \<or> last pre = sep))"
proof -
  have "sep \<notin> set (takeWhile (\<lambda>c. c \<noteq> sep) (rev s))"
    by (auto dest: set_takeWhileD)
  then have 1: "sep \<notin> set (last_segment sep s)"
    by (simp add: last_segment_def)
  have 2: "s = rev (dropWhile (\<lambda>c. c \<noteq> sep) (rev s)) @ last_segment sep s"
    unfolding last_segment_def rev_append[symmetric] by simp
  have 3: "rev (dropWhile (\<lambda>c. c \<noteq> sep) (rev s)) = [] \<or>
           last (rev (dropWhile (\<lambda>c. c \<noteq> sep) (rev s))) = sep"
    using hd_dropWhile[of "\<lambda>c. c \<noteq> sep" "rev s"] by (auto simp: last_rev)
  from 1 2 3 show ?thesis by blast
qed

subsection \<open>The sub-steps\<close>

text \<open>
  Remote submission is best-effort: whatever \<^verbatim>\<open>fetch\<close> and
  \<^verbatim>\<open>response.json()\<close> do, the send functions return, touch neither the component
  state nor the store, read the clock once and show no alert.
\<close>

lemma sendContactsToBackend_returns:
  "\<exists>w'. sendContactsToBackend env d w = Return () w' \<and> ui w' = ui w \<and> storage w' = storage w
     \<and> ticks w' = Suc (ticks w) \<and> filter is_alert (trace w') = filter is_alert (trace w)
     \<and> set (trace w) \<subseteq> set (trace w')"
  by (auto simp: sendContactsToBackend_def prim_defs split: sum.splits)

lemma sendContactsToBackend_failed:
  assumes "post_failed (fetch env (BACKEND_URL @ ''/sync-contacts'')
             (ContactsBody d (toISOString env (dateNow env (ticks w)))))"
  shows "\<exists>e. ConsoleError ''Backend sync error for contacts:'' e
               \<in> set (trace (world_of (sendContactsToBackend env d w)))"
  using assms
  by (auto simp: sendContactsToBackend_def post_failed_def ok_def prim_defs split: sum.splits)

lemma sendFilesToBackend_returns:
  "\<exists>w'. sendFilesToBackend env d w = Return () w' \<and> ui w' = ui w \<and> storage w' = storage w
     \<and> ticks w' = Suc (ticks w) \<and> filter is_alert (trace w') = filter is_alert (trace w)
     \<and> set (trace w) \<subseteq> set (trace w')
     \<and> HttpPost (BACKEND_URL @ ''/sync-files'')
          (FilesBody d (toISOString env (dateNow env (ticks w)))) \<in> set (trace w')"
  by (auto simp: sendFilesToBackend_def prim_defs split: sum.splits)

text \<open>The three ways through \<^verbatim>\<open>getFilesFromDirectory\<close>.\<close>

lemma getFilesFromDirectory_returns:
  "\<exists>fs w'. getFilesFromDirectory env u w = Return fs w' \<and> ui w' = ui w \<and> storage w' = storage w
     \<and> filter is_alert (trace w') = filter is_alert (trace w)
     \<and> set (trace w) \<subseteq> set (trace w') \<and> FileInfoRead u \<in> set (trace w')
     \<and> (\<forall>e. getInfoAsync env u = Inl e \<longrightarrow>
            ConsoleError ''Error getting files:'' e \<in> set (trace w'))"
  by (auto simp: getFilesFromDirectory_def num_or_now_def prim_defs
           split: sum.splits option.splits)

lemma getFilesFromDirectory_throws:
  "getInfoAsync env u = Inl e \<Longrightarrow>
   getFilesFromDirectory env u w =
     Return [] (console_error ''Error getting files:'' e (emit (FileInfoRead u) w))"
  by (simp add: getFilesFromDirectory_def await_getInfoAsync_def)

lemma getFilesFromDirectory_missing:
  "getInfoAsync env u = Inr info \<Longrightarrow> \<not> info_exists info \<Longrightarrow>
   getFilesFromDirectory env u w = Return [] (emit (FileInfoRead u) w)"
  by (simp add: getFilesFromDirectory_def await_getInfoAsync_def)

lemma getFilesFromDirectory_exists:
  "getInfoAsync env u = Inr info \<Longrightarrow> info_exists info \<Longrightarrow>
   \<exists>e w'. getFilesFromDirectory env u w = Return [e] w' \<and> uri e = u
      \<and> name e = pop (js_split (CHR ''/'') u)
      \<and> size_bytes e = num_or (info_size info) 0"
  by (auto simp: getFilesFromDirectory_def await_getInfoAsync_def num_or_now_def date_now_def
           split: option.splits)

text \<open>
  \<^verbatim>\<open>syncContacts\<close> handles every error of its own \<^verbatim>\<open>try\<close> block (a
  throwing read, a rejected write), so it returns whatever the platform answers.
\<close>

lemma syncContacts_returns:
  "\<exists>w'. syncContacts env r w = Return () w' \<and> set (trace w) \<subseteq> set (trace w')
     \<and> (contactsPermission r = Some Granted \<longrightarrow> ContactsRead \<in> set (trace w'))
     \<and> (\<forall>e. contactsPermission r = Some Granted \<longrightarrow> getContactsAsync env = Inl e \<longrightarrow>
            ConsoleError ''Error syncing contacts:'' e \<in> set (trace w'))"
proof (cases "contactsPermission r = Some Granted")
  case False
  then show ?thesis by (auto simp: syncContacts_def prim_defs)
next
  case True
  show ?thesis
  proof (cases "getContactsAsync env")
    case (Inl e)
    with True show ?thesis by (auto simp: syncContacts_def prim_defs)
  next
    case (Inr data)
    let ?w1 = "setContacts data (emit ContactsRead
                 (setSyncStatus ''Syncing contacts...'' (setIsLoading True w)))"
    obtain w2 where w2: "sendContactsToBackend env data ?w1 = Return () w2"
      "set (trace ?w1) \<subseteq> set (trace w2)"
      using sendContactsToBackend_returns by blast
    have "trace ?w1 = trace w @ [ContactsRead]"
      by (simp add: prim_defs)
    with w2(2) have "set (trace w) \<subseteq> set (trace w2)" "ContactsRead \<in> set (trace w2)"
      by auto
    with True Inr w2(1) show ?thesis
      by (auto simp: syncContacts_def prim_defs split: option.splits)
  qed
qed

text \<open>
  With a folder set, \<^verbatim>\<open>syncFiles\<close> looks the handle up and posts the listing,
  and returns, whatever the platform answers.
\<close>

lemma syncFiles_attempted:
  assumes "selectedFolderUri r = Some u" and "u \<noteq> []"
  shows "\<exists>w'. syncFiles env r w = Return () w' \<and> set (trace w) \<subseteq> set (trace w')
           \<and> FileInfoRead u \<in> set (trace w')
           \<and> (\<exists>fs ts. HttpPost (BACKEND_URL @ ''/sync-files'') (FilesBody fs ts) \<in> set (trace w'))
           \<and> (\<forall>e. getInfoAsync env u = Inl e \<longrightarrow>
                  ConsoleError ''Error getting files:'' e \<in> set (trace w'))"
proof -
  let ?w0 = "setSyncStatus ''Syncing files...'' (setIsLoading True w)"
  obtain fs w1 where w1: "getFilesFromDirectory env u ?w0 = Return fs w1"
    "set (trace ?w0) \<subseteq> set (trace w1)" "FileInfoRead u \<in> set (trace w1)"
    "\<forall>e. getInfoAsync env u = Inl e \<longrightarrow>
       ConsoleError ''Error getting files:'' e \<in> set (trace w1)"
    using getFilesFromDirectory_returns by blast
  obtain w2 where w2: "sendFilesToBackend env fs (setFiles fs w1) = Return () w2"
    "set (trace (setFiles fs w1)) \<subseteq> set (trace w2)"
    "HttpPost (BACKEND_URL @ ''/sync-files'')
       (FilesBody fs (toISOString env (dateNow env (ticks (setFiles fs w1))))) \<in> set (trace w2)"
    using sendFilesToBackend_returns by blast
  have t0: "trace ?w0 = trace w" "trace (setFiles fs w1) = trace w1"
    by (simp_all add: prim_defs)
  from w1(2,3,4) w2(2) t0
  have sub: "set (trace w) \<subseteq> set (trace w2)" "FileInfoRead u \<in> set (trace w2)"
    "\<forall>e. getInfoAsync env u = Inl e \<longrightarrow>
       ConsoleError ''Error getting files:'' e \<in> set (trace w2)"
    by auto
  have "\<exists>w3. syncFiles env r w = Return () w3 \<and> set (trace w2) \<subseteq> set (trace w3)"
  proof (cases "storageSetItem env FILES_LAST_SYNC (toISOString env (dateNow env (ticks w2)))")
    case None
    with assms w1(1) w2(1) show ?thesis
      by (auto simp: syncFiles_def truthy_def prim_defs)
  next
    case (Some e')
    with assms w1(1) w2(1) show ?thesis
      by (auto simp: syncFiles_def truthy_def prim_defs)
  qed
  then obtain w3 where w3: "syncFiles env r w = Return () w3"
    "set (trace w2) \<subseteq> set (trace w3)"
    by blast
  from w2(3) w3(2) have post:
    "\<exists>fs ts. HttpPost (BACKEND_URL @ ''/sync-files'') (FilesBody fs ts) \<in> set (trace w3)"
    by blast
  from sub w3(2) have
    "set (trace w) \<subseteq> set (trace w3)" "FileInfoRead u \<in> set (trace w3)"
    "\<forall>e. getInfoAsync env u = Inl e \<longrightarrow>
       ConsoleError ''Error getting files:'' e \<in> set (trace w3)"
    by auto
  with w3(1) post show ?thesis by blast
qed

text \<open>
  So the \<^verbatim>\<open>catch\<close> of \<^verbatim>\<open>performAutoSync\<close> is never reached by the two
  handlers of the screen: both return.
\<close>

lemma performAutoSync_returns: "is_Return (performAutoSync env r w)"
proof -
  obtain w1 where w1: "syncContacts env r w = Return () w1"
    using syncContacts_returns by blast
  show ?thesis
  proof (cases "truthy (selectedFolderUri r)")
    case False
    with w1 show ?thesis by (simp add: performAutoSync_def performAutoSync_body_def)
  next
    case True
    then obtain u where u: "selectedFolderUri r = Some u" "u \<noteq> []"
      by (auto simp: truthy_def split: option.splits)
    obtain wa where "syncFiles env r w = Return () wa"
      using syncFiles_attempted[OF u] by blast
    moreover obtain wb where "syncFiles env r w1 = Return () wb"
      using syncFiles_attempted[OF u] by blast
    ultimately show ?thesis
      using True w1 by (simp add: performAutoSync_def performAutoSync_body_def)
  qed
qed


text \<open>The sample platforms, answer by answer.\<close>

lemma ex_env_info_throws_sel:
  "getInfoAsync ex_env_info_throws u = Inl (Error ''Location is not readable'')"
  "fetch ex_env_info_throws url b = Inr \<lparr>status = 200, json = Inr ''{}''\<rparr>"
  "storageSetItem ex_env_info_throws k v = None"
  "dateNow ex_env_info_throws n = 1700000000000 + int n"
  "toISOString ex_env_info_throws = ex_iso"
  by (simp_all add: ex_env_info_throws_def ex_env_def)

lemma ex_env_store_rejects_sel:
  "getContactsAsync ex_env_store_rejects = Inr [ex_contact]"
  "fetch ex_env_store_rejects url b = Inr \<lparr>status = 500, json = Inr ''{}''\<rparr>"
  "storageSetItem ex_env_store_rejects k v = Some (Error ''Storage is full'')"
  "dateNow ex_env_store_rejects n = 1700000000000 + int n"
  "toISOString ex_env_store_rejects = ex_iso"
  by (simp_all add: ex_env_store_rejects_def ex_env_http500_def ex_env_def)

lemma ex_world_sel:
  "ui (ex_world a) = a" "storage (ex_world a) = Map.empty" "trace (ex_world a) = []"
  "ticks (ex_world a) = 0"
  by (simp_all add: ex_world_def)

lemma ex_iso_readings:
  "ex_iso 1700000000000 = ''2023-11-14T22:13:20.000Z''"
  "ex_iso 1700000000001 = ''2023-11-14T22:13:20.001Z''"
  by (simp_all add: ex_iso_def digit_def)

subsection \<open>Contacts sync when the remote submission fails\<close>

text \<open>
  C1. When the permission is granted, the contact read succeeds, the POST to
  /sync-contacts throws or answers with a non-2xx status, and the store accepts the
  write of contacts_last_sync, syncContacts returns normally, contacts_last_sync holds
  the clock reading taken after the POST, the status is the success message and no
  alert is shown: the remote error is only logged.
\<close>

theorem syncContacts_remote_failure:
  assumes "contactsPermission r = Some Granted"
    and "getContactsAsync env = Inr data"
    and "post_failed (fetch env (BACKEND_URL @ ''/sync-contacts'')
           (ContactsBody data (toISOString env (dateNow env (ticks w)))))"
    and "storageSetItem env CONTACTS_LAST_SYNC
           (toISOString env (dateNow env (Suc (ticks w)))) = None"
  shows "\<exists>w'. syncContacts env r w = Return () w'
           \<and> storage w' CONTACTS_LAST_SYNC = Some (toISOString env (dateNow env (Suc (ticks w))))
           \<and> lastSyncTime (ui w') = Some (toISOString env (dateNow env (Suc (ticks w))))
           \<and> contacts (ui w') = data
           \<and> syncStatus (ui w') = ''Contacts synced successfully!''
           \<and> filter is_alert (trace w') = filter is_alert (trace w)
           \<and> (\<exists>e. ConsoleError ''Backend sync error for contacts:'' e \<in> set (trace w'))"
proof -
  let ?w1 = "setContacts data (emit ContactsRead
               (setSyncStatus ''Syncing contacts...'' (setIsLoading True w)))"
  obtain w2 where w2: "sendContactsToBackend env data ?w1 = Return () w2"
    "ui w2 = ui ?w1" "storage w2 = storage ?w1" "ticks w2 = Suc (ticks ?w1)"
    "filter is_alert (trace w2) = filter is_alert (trace ?w1)"
    using sendContactsToBackend_returns by blast
  have t: "ticks ?w1 = ticks w" by (simp add: prim_defs)
  with assms(3) sendContactsToBackend_failed[of env data ?w1] w2(1)
  obtain e where "ConsoleError ''Backend sync error for contacts:'' e \<in> set (trace w2)"
    by auto
  then show ?thesis
    using assms(1,2,4) w2 t
    by (auto simp: syncContacts_def prim_defs)
qed

text \<open>On the sample platforms whose backend answers 500, and whose network is down.\<close>

theorem syncContacts_remote_failure_witness:
  "contactsPermission ex_app = Some Granted
   \<and> getContactsAsync ex_env_http500 = Inr [ex_contact]
   \<and> post_failed (fetch ex_env_http500 (BACKEND_URL @ ''/sync-contacts'')
        (ContactsBody [ex_contact] ''2023-11-14T22:13:20.000Z''))
   \<and> storageSetItem ex_env_http500 CONTACTS_LAST_SYNC ''2023-11-14T22:13:20.001Z'' = None
   \<and> is_Return (syncContacts ex_env_http500 ex_app (ex_world ex_app))
   \<and> storage (world_of (syncContacts ex_env_http500 ex_app (ex_world ex_app))) CONTACTS_LAST_SYNC
       = Some ''2023-11-14T22:13:20.001Z''
   \<and> syncStatus (ui (world_of (syncContacts ex_env_http500 ex_app (ex_world ex_app))))
       = ''Contacts synced successfully!''
   \<and> filter is_alert (trace (world_of (syncContacts ex_env_http500 ex_app (ex_world ex_app)))) = []
   \<and> getContactsAsync ex_env_offline = Inr [ex_contact]
   \<and> fetch ex_env_offline (BACKEND_URL @ ''/sync-contacts'')
        (ContactsBody [ex_contact] ''2023-11-14T22:13:20.000Z'') = Inl (Error ''Network request failed'')
   \<and> storageSetItem ex_env_offline CONTACTS_LAST_SYNC ''2023-11-14T22:13:20.001Z'' = None
   \<and> is_Return (syncContacts ex_env_offline ex_app (ex_world ex_app))
   \<and> storage (world_of (syncContacts ex_env_offline ex_app (ex_world ex_app))) CONTACTS_LAST_SYNC
       = Some ''2023-11-14T22:13:20.001Z''
   \<and> syncStatus (ui (world_of (syncContacts ex_env_offline ex_app (ex_world ex_app))))
       = ''Contacts synced successfully!''
   \<and> filter is_alert (trace (world_of (syncContacts ex_env_offline ex_app (ex_world ex_app)))) = []"
proof -
  have h1: "contactsPermission ex_app = Some Granted"
    by (simp add: ex_defs)
  have tr: "trace (ex_world ex_app) = []" "ticks (ex_world ex_app) = 0"
    by (simp_all add: ex_defs)
  have a2: "getContactsAsync ex_env_http500 = Inr [ex_contact]"
    by (simp add: ex_defs)
  have a0: "toISOString ex_env_http500 (dateNow ex_env_http500 0) = ''2023-11-14T22:13:20.000Z''"
    and a1: "toISOString ex_env_http500 (dateNow ex_env_http500 (Suc 0)) = ''2023-11-14T22:13:20.001Z''"
    by (simp_all add: ex_defs)
  have a3: "post_failed (fetch ex_env_http500 (BACKEND_URL @ ''/sync-contacts'')
              (ContactsBody [ex_contact] ''2023-11-14T22:13:20.000Z''))"
    by (simp add: ex_defs post_failed_def)
  have a5: "storageSetItem ex_env_http500 CONTACTS_LAST_SYNC ''2023-11-14T22:13:20.001Z'' = None"
    by (simp add: ex_defs)
  have b2: "getContactsAsync ex_env_offline = Inr [ex_contact]"
    by (simp add: ex_defs)
  have b0: "toISOString ex_env_offline (dateNow ex_env_offline 0) = ''2023-11-14T22:13:20.000Z''"
    and b1: "toISOString ex_env_offline (dateNow ex_env_offline (Suc 0)) = ''2023-11-14T22:13:20.001Z''"
    by (simp_all add: ex_defs)
  have b4: "fetch ex_env_offline (BACKEND_URL @ ''/sync-contacts'')
              (ContactsBody [ex_contact] ''2023-11-14T22:13:20.000Z'') = Inl (Error ''Network request failed'')"
    by (simp add: ex_defs)
  then have b3: "post_failed (fetch ex_env_offline (BACKEND_URL @ ''/sync-contacts'')
              (ContactsBody [ex_contact] ''2023-11-14T22:13:20.000Z''))"
    by (simp add: post_failed_def)
  have b5: "storageSetItem ex_env_offline CONTACTS_LAST_SYNC ''2023-11-14T22:13:20.001Z'' = None"
    by (simp add: ex_defs)
  have A: "\<exists>w'. syncContacts ex_env_http500 ex_app (ex_world ex_app) = Return () w'
             \<and> storage w' CONTACTS_LAST_SYNC = Some ''2023-11-14T22:13:20.001Z''
             \<and> syncStatus (ui w') = ''Contacts synced successfully!''
             \<and> filter is_alert (trace w') = []"
    using syncContacts_remote_failure[of ex_app ex_env_http500 "[ex_contact]" "ex_world ex_app"]
          h1 a2 a3 a0 a1 a5 tr by auto
  have B: "\<exists>w'. syncContacts ex_env_offline ex_app (ex_world ex_app) = Return () w'
             \<and> storage w' CONTACTS_LAST_SYNC = Some ''2023-11-14T22:13:20.001Z''
             \<and> syncStatus (ui w') = ''Contacts synced successfully!''
             \<and> filter is_alert (trace w') = []"
    using syncContacts_remote_failure[of ex_app ex_env_offline "[ex_contact]" "ex_world ex_app"]
          h1 b2 b3 b0 b1 b5 tr by auto
  from A B h1 a2 a3 a5 b2 b4 b5 show ?thesis
    by auto
qed

text \<open>
  Without the condition on the store the statement fails. On the sample platform whose
  backend answers 500 and whose store rejects the write, the permission is granted, the
  read succeeds and the POST fails, yet syncContacts takes its catch block: no
  timestamp is stored, the status is the failure message and the alert "Sync Error" is
  shown.
\<close>

theorem syncContacts_remote_failure_counterexample:
  "contactsPermission ex_app = Some Granted
   \<and> getContactsAsync ex_env_store_rejects = Inr [ex_contact]
   \<and> post_failed (fetch ex_env_store_rejects (BACKEND_URL @ ''/sync-contacts'')
        (ContactsBody [ex_contact] ''2023-11-14T22:13:20.000Z''))
   \<and> is_Return (syncContacts ex_env_store_rejects ex_app (ex_world ex_app))
   \<and> storage (world_of (syncContacts ex_env_store_rejects ex_app (ex_world ex_app)))
        CONTACTS_LAST_SYNC = None
   \<and> lastSyncTime (ui (world_of (syncContacts ex_env_store_rejects ex_app (ex_world ex_app))))
       = None
   \<and> syncStatus (ui (world_of (syncContacts ex_env_store_rejects ex_app (ex_world ex_app))))
       = ''Contacts sync failed''
   \<and> filter is_alert (trace (world_of (syncContacts ex_env_store_rejects ex_app (ex_world ex_app))))
       = [Alert ''Sync Error'' ''Failed to sync contacts: Storage is full'']"
proof -
  have p: "contactsPermission ex_app = Some Granted" "lastSyncTime ex_app = None"
    by (simp_all add: ex_app_def)
  have send: "sendContactsToBackend ex_env_store_rejects d w =
     Return () (w\<lparr>ticks := Suc (ticks w),
                  trace := trace w @
                    [HttpPost (BACKEND_URL @ ''/sync-contacts'')
                       (ContactsBody d (ex_iso (1700000000000 + int (ticks w)))),
                     ConsoleError ''Backend sync error for contacts:''
                       (Error (''HTTP error! status: '' @ string_of_nat 500)),
                     ConsoleLog ''Continuing with local storage only'' None]\<rparr>)" for d w
    by (simp add: sendContactsToBackend_def ok_def prim_defs ex_env_store_rejects_sel)
  have run: "syncContacts ex_env_store_rejects ex_app (ex_world ex_app) =
     Return ()
       \<lparr>ui = ex_app\<lparr>contacts := [ex_contact], syncStatus := ''Contacts sync failed''\<rparr>,
        storage = Map.empty,
        trace = [ContactsRead,
                 HttpPost (BACKEND_URL @ ''/sync-contacts'')
                   (ContactsBody [ex_contact] ''2023-11-14T22:13:20.000Z''),
                 ConsoleError ''Backend sync error for contacts:''
                   (Error (''HTTP error! status: '' @ string_of_nat 500)),
                 ConsoleLog ''Continuing with local storage only'' None,
                 ConsoleError ''Error syncing contacts:'' (Error ''Storage is full''),
                 Alert ''Sync Error'' ''Failed to sync contacts: Storage is full'',
                 SetTimeout 3000],
        ticks = 2\<rparr>"
    by (simp add: syncContacts_def p send prim_defs ex_env_store_rejects_sel ex_world_def
          ex_iso_readings ex_app_def)
  show ?thesis
    by (simp add: run p ex_env_store_rejects_sel post_failed_def)
qed

subsection \<open>Files sync when the lookup throws\<close>

text \<open>
  C2. The property does not hold of the code. On the sample platform whose file-info
  lookup throws (the backend answers 200 and the store accepts writes), from a render
  with the folder "file:///mock/folder" and an empty store, syncFiles does not fail:
  getFilesFromDirectory catches the error first, so syncFiles returns with
  files_last_sync written, the status "Files synced successfully!", an empty list
  posted, and no alert in the trace.
\<close>

theorem syncFiles_lookup_failure_run:
  "selectedFolderUri ex_app = Some ''file:///mock/folder''
   \<and> getInfoAsync ex_env_info_throws ''file:///mock/folder''
       = Inl (Error ''Location is not readable'')
   \<and> storage (ex_world ex_app) FILES_LAST_SYNC = None
   \<and> syncFiles ex_env_info_throws ex_app (ex_world ex_app) =
       Return ()
         \<lparr>ui = ex_app\<lparr>syncStatus := ''Files synced successfully!''\<rparr>,
          storage = [FILES_LAST_SYNC \<mapsto> ''2023-11-14T22:13:20.001Z''],
          trace = [FileInfoRead ''file:///mock/folder'',
                   ConsoleError ''Error getting files:'' (Error ''Location is not readable''),
                   HttpPost (BACKEND_URL @ ''/sync-files'')
                     (FilesBody [] ''2023-11-14T22:13:20.000Z''),
                   ConsoleLog ''Files synced to backend:'' (Some ''{}''),
                   SetTimeout 3000],
          ticks = 2\<rparr>
   \<and> storage (world_of (syncFiles ex_env_info_throws ex_app (ex_world ex_app))) FILES_LAST_SYNC
       = Some ''2023-11-14T22:13:20.001Z''
   \<and> syncStatus (ui (world_of (syncFiles ex_env_info_throws ex_app (ex_world ex_app))))
       = ''Files synced successfully!''
   \<and> filter is_alert (trace (world_of (syncFiles ex_env_info_throws ex_app (ex_world ex_app)))) = []"
proof -
  have f: "selectedFolderUri ex_app = Some ''file:///mock/folder''"
    by (simp add: ex_app_def)
  have send: "sendFilesToBackend ex_env_info_throws [] w =
     Return () (w\<lparr>ticks := Suc (ticks w),
                  trace := trace w @
                    [HttpPost (BACKEND_URL @ ''/sync-files'')
                       (FilesBody [] (ex_iso (1700000000000 + int (ticks w)))),
                     ConsoleLog ''Files synced to backend:'' (Some ''{}'')]\<rparr>)" for w
    by (simp add: sendFilesToBackend_def ok_def prim_defs ex_env_info_throws_sel)
  have run: "syncFiles ex_env_info_throws ex_app (ex_world ex_app) =
     Return ()
       \<lparr>ui = ex_app\<lparr>syncStatus := ''Files synced successfully!''\<rparr>,
        storage = [FILES_LAST_SYNC \<mapsto> ''2023-11-14T22:13:20.001Z''],
        trace = [FileInfoRead ''file:///mock/folder'',
                 ConsoleError ''Error getting files:'' (Error ''Location is not readable''),
                 HttpPost (BACKEND_URL @ ''/sync-files'') (FilesBody [] ''2023-11-14T22:13:20.000Z''),
                 ConsoleLog ''Files synced to backend:'' (Some ''{}''),
                 SetTimeout 3000],
        ticks = 2\<rparr>"
    by (simp add: syncFiles_def truthy_def f getFilesFromDirectory_throws send prim_defs
          ex_env_info_throws_sel ex_world_def ex_iso_readings ex_app_def)
  show ?thesis
    by (simp add: run f ex_env_info_throws_sel ex_world_sel)
qed

subsection \<open>Auto sync\<close>




subsection \<open>Contacts sync when the read throws\<close>

text \<open>
  C4. When the permission is granted and the contact read throws, syncContacts leaves
  the store (so contacts_last_sync), the last sync time and the contact list as they
  were, logs the error, shows the alert "Sync Error" with the error's message and sets
  the status to the failure message.
\<close>

theorem syncContacts_read_failure:
  assumes "contactsPermission r = Some Granted"
    and "getContactsAsync env = Inl e"
  shows "\<exists>w'. syncContacts env r w = Return () w'
           \<and> storage w' = storage w
           \<and> lastSyncTime (ui w') = lastSyncTime (ui w)
           \<and> contacts (ui w') = contacts (ui w)
           \<and> syncStatus (ui w') = ''Contacts sync failed''
           \<and> trace w' = trace w @
                [ContactsRead,
                 ConsoleError ''Error syncing contacts:'' e,
                 Alert ''Sync Error'' (''Failed to sync contacts: '' @ message e),
                 SetTimeout 3000]"
  using assms by (simp add: syncContacts_def prim_defs)

text \<open>On the sample platform whose contact read throws.\<close>

theorem syncContacts_read_failure_witness:
  "contactsPermission ex_app = Some Granted
   \<and> getContactsAsync ex_env_contacts_throw = Inl (Error ''Contacts unavailable'')
   \<and> storage (world_of (syncContacts ex_env_contacts_throw ex_app (ex_world ex_app))) CONTACTS_LAST_SYNC
       = None
   \<and> syncStatus (ui (world_of (syncContacts ex_env_contacts_throw ex_app (ex_world ex_app))))
       = ''Contacts sync failed''
   \<and> filter is_alert (trace (world_of (syncContacts ex_env_contacts_throw ex_app (ex_world ex_app))))
       = [Alert ''Sync Error'' ''Failed to sync contacts: Contacts unavailable'']"
proof -
  have h1: "contactsPermission ex_app = Some Granted"
    by (simp add: ex_defs)
  have h2: "getContactsAsync ex_env_contacts_throw = Inl (Error ''Contacts unavailable'')"
    by (simp add: ex_defs)
  have w0: "storage (ex_world ex_app) = Map.empty" "trace (ex_world ex_app) = []"
    by (simp_all add: ex_defs)
  from syncContacts_read_failure[OF h1 h2, of "ex_world ex_app"] h1 h2 w0 show ?thesis
    by auto
qed

subsection \<open>Permission and folder preconditions\<close>

text \<open>
  C5. For every permission state other than granted (null included), syncContacts only
  shows the alert "Permission Required": the store (so the contacts_last_sync
  timestamp) and the component state (so the in-memory contact list) are unchanged, and
  the trace gains neither a contact read nor a network request.
\<close>

theorem syncContacts_permission_required:
  assumes "contactsPermission r \<noteq> Some Granted"
  shows "syncContacts env r w =
           Return () (w\<lparr>trace := trace w @
             [Alert ''Permission Required'' ''Please grant contacts permission first.'']\<rparr>)"
  using assms by (simp add: syncContacts_def alert_def emit_def)

text \<open>From a render with the permission denied.\<close>

theorem syncContacts_permission_required_witness:
  "contactsPermission ex_app_denied \<noteq> Some Granted
   \<and> syncContacts ex_env ex_app_denied (ex_world ex_app_denied) =
       Return () ((ex_world ex_app_denied)\<lparr>trace :=
         [Alert ''Permission Required'' ''Please grant contacts permission first.'']\<rparr>)"
proof -
  have h: "contactsPermission ex_app_denied \<noteq> Some Granted"
    by (simp add: ex_defs)
  have "trace (ex_world ex_app_denied) = []"
    by (simp add: ex_defs)
  with syncContacts_permission_required[OF h, of ex_env "ex_world ex_app_denied"] h
  show ?thesis by simp
qed

text \<open>
  C6. With no folder handle set (null or the empty string), syncFiles only shows the
  alert "Folder Required": the store (so the files_last_sync timestamp) and the
  component state (so the in-memory file list) are unchanged, and the trace gains
  neither a file-info lookup nor a network request.
\<close>

theorem syncFiles_folder_required:
  assumes "\<not> truthy (selectedFolderUri r)"
  shows "syncFiles env r w =
           Return () (w\<lparr>trace := trace w @
             [Alert ''Folder Required'' ''Please select a folder first.'']\<rparr>)"
  using assms by (simp add: syncFiles_def alert_def emit_def)

text \<open>From a render with no folder.\<close>

theorem syncFiles_folder_required_witness:
  "\<not> truthy (selectedFolderUri ex_app_no_folder)
   \<and> syncFiles ex_env ex_app_no_folder (ex_world ex_app_no_folder) =
       Return () ((ex_world ex_app_no_folder)\<lparr>trace :=
         [Alert ''Folder Required'' ''Please select a folder first.'']\<rparr>)"
proof -
  have h: "\<not> truthy (selectedFolderUri ex_app_no_folder)"
    by (simp add: ex_defs truthy_def)
  have "trace (ex_world ex_app_no_folder) = []"
    by (simp add: ex_defs)
  with syncFiles_folder_required[OF h, of ex_env "ex_world ex_app_no_folder"] h
  show ?thesis by simp
qed

text \<open>
  C7. When the permission is not granted (denied in particular) and no folder handle is
  set, performAutoSync does nothing at all: the world is returned as it was, so the
  trace gains no local read (contact list or file-info) and no network request.
\<close>

theorem performAutoSync_idle:
  assumes "contactsPermission r \<noteq> Some Granted"
    and "\<not> truthy (selectedFolderUri r)"
  shows "performAutoSync env r w = Return () w
         \<and> filter is_local_read (trace (world_of (performAutoSync env r w)))
             = filter is_local_read (trace w)
         \<and> filter is_request (trace (world_of (performAutoSync env r w)))
             = filter is_request (trace w)"
  using assms by (simp add: performAutoSync_def performAutoSync_body_def)

text \<open>From a render with the permission denied and no folder.\<close>

theorem performAutoSync_idle_witness:
  "contactsPermission ex_app_idle = Some Denied
   \<and> \<not> truthy (selectedFolderUri ex_app_idle)
   \<and> performAutoSync ex_env ex_app_idle (ex_world ex_app_idle) = Return () (ex_world ex_app_idle)
   \<and> filter is_local_read
        (trace (world_of (performAutoSync ex_env ex_app_idle (ex_world ex_app_idle)))) = []
   \<and> filter is_request
        (trace (world_of (performAutoSync ex_env ex_app_idle (ex_world ex_app_idle)))) = []"
proof -
  have h1: "contactsPermission ex_app_idle = Some Denied"
    by (simp add: ex_defs)
  then have h1': "contactsPermission ex_app_idle \<noteq> Some Granted"
    by simp
  have h2: "\<not> truthy (selectedFolderUri ex_app_idle)"
    by (simp add: ex_defs truthy_def)
  have "trace (ex_world ex_app_idle) = []"
    by (simp add: ex_defs)
  with performAutoSync_idle[OF h1' h2, of ex_env "ex_world ex_app_idle"] h1 h2
  show ?thesis by simp
qed

subsection \<open>The file listing\<close>

text \<open>
  C8. When the file-info lookup reports that the handle exists, getFilesFromDirectory
  gives exactly one entry, for the handle itself, whose name is the last '/'-separated
  segment of the handle; and a files sync from a render with that handle set stores
  this one-entry listing as the file list.
\<close>

theorem getFilesFromDirectory_single_entry:
  assumes "getInfoAsync env u = Inr info"
    and "info_exists info"
  shows "(\<exists>e w'. getFilesFromDirectory env u w = Return [e] w'
            \<and> uri e = u \<and> name e = last_segment (CHR ''/'') u)
         \<and> (selectedFolderUri r = Some u \<and> u \<noteq> [] \<longrightarrow>
              (\<exists>e. files (ui (world_of (syncFiles env r w))) = [e]
                 \<and> uri e = u \<and> name e = last_segment (CHR ''/'') u))"
proof -
  have A: "\<exists>e w'. getFilesFromDirectory env u w0 = Return [e] w'
             \<and> uri e = u \<and> name e = last_segment (CHR ''/'') u" for w0
    using getFilesFromDirectory_exists[OF assms, of w0] by (auto simp: pop_js_split)
  have B: "\<exists>e. files (ui (world_of (syncFiles env r w))) = [e]
             \<and> uri e = u \<and> name e = last_segment (CHR ''/'') u"
    if f: "selectedFolderUri r = Some u" "u \<noteq> []"
  proof -
    let ?w0 = "setSyncStatus ''Syncing files...'' (setIsLoading True w)"
    obtain e w1 where e: "getFilesFromDirectory env u ?w0 = Return [e] w1"
      "uri e = u" "name e = last_segment (CHR ''/'') u"
      using A by blast
    obtain w2 where w2: "sendFilesToBackend env [e] (setFiles [e] w1) = Return () w2"
      "ui w2 = ui (setFiles [e] w1)"
      using sendFilesToBackend_returns by blast
    have "files (ui (world_of (syncFiles env r w))) = [e]"
      using f e(1) w2 by (simp add: syncFiles_def truthy_def prim_defs split: option.splits)
    with e(2,3) show ?thesis by blast
  qed
  from A B show ?thesis by blast
qed

text \<open>
  The spec's scenario: permission denied, folder "file:///mock/folder"; the one entry
  is named "folder".
\<close>

theorem getFilesFromDirectory_single_entry_witness:
  "getInfoAsync ex_env ''file:///mock/folder''
     = Inr \<lparr>info_exists = True, info_size = Some 4096, info_modificationTime = Some 1699999000\<rparr>
   \<and> selectedFolderUri ex_app_denied = Some ''file:///mock/folder''
   \<and> map name (result (getFilesFromDirectory ex_env ''file:///mock/folder'' (ex_world ex_app_denied)))
       = [''folder'']
   \<and> map name (files (ui (world_of (syncFiles ex_env ex_app_denied (ex_world ex_app_denied)))))
       = [''folder'']"
proof -
  have h1: "getInfoAsync ex_env ''file:///mock/folder''
     = Inr \<lparr>info_exists = True, info_size = Some 4096, info_modificationTime = Some 1699999000\<rparr>"
    by (simp add: ex_defs)
  have h2: "info_exists \<lparr>info_exists = True, info_size = Some 4096,
                          info_modificationTime = Some 1699999000\<rparr>"
    by simp
  have h3: "selectedFolderUri ex_app_denied = Some ''file:///mock/folder''"
    by (simp add: ex_defs)
  have seg: "last_segment (CHR ''/'') ''file:///mock/folder'' = ''folder''"
    by (simp add: last_segment_def)
  from getFilesFromDirectory_single_entry[OF h1 h2, of "ex_world ex_app_denied" ex_app_denied]
       h1 h3 seg
  show ?thesis by auto
qed

subsection \<open>Folder selection\<close>

text \<open>
  C9. When the document picker resolves to a cancelled result, or to one with no assets
  (null or an empty list), selectFolder only opens the picker: the store (so folder_uri)
  and the component state (so the selected folder) are unchanged, and nothing of a files
  sync (alert, lookup, request) enters the trace.
\<close>

theorem selectFolder_cancelled:
  assumes "getDocumentAsync env = Inr res"
    and "canceled res \<or> assets res = None \<or> assets res = Some []"
  shows "selectFolder env r w = Return () (w\<lparr>trace := trace w @ [PickerOpened]\<rparr>)"
  using assms by (auto simp: selectFolder_def await_getDocumentAsync_def emit_def)

text \<open>On the sample platforms whose picker is cancelled, and returns no asset.\<close>

theorem selectFolder_cancelled_witness:
  "getDocumentAsync ex_env = Inr \<lparr>canceled = True, assets = None\<rparr>
   \<and> getDocumentAsync ex_env_no_assets = Inr \<lparr>canceled = False, assets = Some []\<rparr>
   \<and> selectFolder ex_env ex_app (ex_world ex_app) =
       Return () ((ex_world ex_app)\<lparr>trace := [PickerOpened]\<rparr>)
   \<and> selectFolder ex_env_no_assets ex_app (ex_world ex_app) =
       Return () ((ex_world ex_app)\<lparr>trace := [PickerOpened]\<rparr>)"
proof -
  have h1: "getDocumentAsync ex_env = Inr \<lparr>canceled = True, assets = None\<rparr>"
    by (simp add: ex_defs)
  have h2: "getDocumentAsync ex_env_no_assets = Inr \<lparr>canceled = False, assets = Some []\<rparr>"
    by (simp add: ex_defs)
  have t: "trace (ex_world ex_app) = []"
    by (simp add: ex_defs)
  from selectFolder_cancelled[OF h1, of ex_app "ex_world ex_app"]
       selectFolder_cancelled[OF h2, of ex_app "ex_world ex_app"] h1 h2 t
  show ?thesis by simp
qed

subsection \<open>The listing never throws\<close>

text \<open>
  C10. getFilesFromDirectory returns for every platform, handle and world (it never
  throws to its caller), and its result is the empty list both when the lookup reports
  that the location does not exist and when the lookup throws.
\<close>

theorem getFilesFromDirectory_total:
  "is_Return (getFilesFromDirectory env u w)
   \<and> (\<forall>info. getInfoAsync env u = Inr info \<longrightarrow> \<not> info_exists info \<longrightarrow>
         result (getFilesFromDirectory env u w) = [])
   \<and> (\<forall>e. getInfoAsync env u = Inl e \<longrightarrow> result (getFilesFromDirectory env u w) = [])"
proof -
  obtain fs w' where "getFilesFromDirectory env u w = Return fs w'"
    using getFilesFromDirectory_returns by blast
  then have "is_Return (getFilesFromDirectory env u w)"
    by simp
  then show ?thesis
    by (simp add: getFilesFromDirectory_missing getFilesFromDirectory_throws)
qed

text \<open>On the sample platforms whose lookup reports a missing location, and throws.\<close>

theorem getFilesFromDirectory_total_witness:
  "getInfoAsync ex_env_missing ''file:///mock/folder''
     = Inr \<lparr>info_exists = False, info_size = None, info_modificationTime = None\<rparr>
   \<and> getInfoAsync ex_env_info_throws ''file:///mock/folder''
       = Inl (Error ''Location is not readable'')
   \<and> is_Return (getFilesFromDirectory ex_env_missing ''file:///mock/folder'' (ex_world ex_app))
   \<and> result (getFilesFromDirectory ex_env_missing ''file:///mock/folder'' (ex_world ex_app)) = []
   \<and> is_Return (getFilesFromDirectory ex_env_info_throws ''file:///mock/folder'' (ex_world ex_app))
   \<and> result (getFilesFromDirectory ex_env_info_throws ''file:///mock/folder'' (ex_world ex_app)) = []"
proof -
  have h1: "getInfoAsync ex_env_missing ''file:///mock/folder''
              = Inr \<lparr>info_exists = False, info_size = None, info_modificationTime = None\<rparr>"
    by (simp add: ex_defs)
  have h2: "getInfoAsync ex_env_info_throws ''file:///mock/folder''
              = Inl (Error ''Location is not readable'')"
    by (simp add: ex_defs)
  from getFilesFromDirectory_total[of ex_env_missing "''file:///mock/folder''" "ex_world ex_app"]
       getFilesFromDirectory_total[of ex_env_info_throws "''file:///mock/folder''" "ex_world ex_app"]
       h1 h2
  show ?thesis by simp
qed

end
